theory Spec2Isabelle
  imports Main
begin

section \<open>Go values\<close>

text \<open>
  A Go pointer is either nil or points to a value; the mapping code never compares
  addresses, so a pointer is modelled by an option (\<open>None\<close> is nil). A run-time panic is
  a value of its own, apart from the errors the functions return.
\<close>

type_synonym 'a ptr = "'a option"

datatype panic = NilPointerDereference | IndexOutOfRange | ReflectZeroValue

datatype error =
    ExternalError string
  | EscapeError string
  | AggregateError string "error list"

datatype 'a result = Ok 'a | Err error | Panic panic

subsection \<open>time.Time\<close>

text \<open>
  An instant is the number of nanoseconds since the zero time (January 1, year 1,
  00:00:00 UTC); a duration is a number of nanoseconds. \<open>Truncate\<close> rounds down to a
  multiple of the duration since the zero time and leaves the instant alone when the
  duration is not positive; \<open>IsZero\<close> holds of the zero time only.
\<close>

type_synonym Time = int
type_synonym Duration = int

definition zeroTime :: Time where
  "zeroTime = 0"

definition Millisecond :: Duration where
  "Millisecond = 1000000"

definition Second :: Duration where
  "Second = 1000000000"

definition Truncate :: "Time \<Rightarrow> Duration \<Rightarrow> Time" where
  "Truncate t d = (if d \<le> 0 then t else t - t mod d)"

definition IsZero :: "Time \<Rightarrow> bool" where
  "IsZero t = (t = zeroTime)"

section \<open>The raw event of the iCalendar library\<close>

text \<open>
  The types of the iCalendar library are declared outside the repository. The records
  below hold the fields the mapping code reads, with the optionality the code shows: it
  tests \<open>Organizer\<close> and \<open>LastModified\<close> against nil, hands \<open>Url\<close> and \<open>Location\<close> to the
  nil-guarded \<open>unsafeToString\<close>, and reads the other fields directly. The participation status,
  the access classification and the sensitivity are enumerations of external packages
  and stay type parameters. An encodable value is represented by what its
  \<open>EncodeICalValue\<close> method returns.
\<close>

record mail_Address =
  mail_Name :: string
  mail_Address :: string

record 'p Attendee =
  Attendee_Entry :: mail_Address
  ParticipationStatus :: 'p

record OrganizerContact =
  OrganizerContact_Entry :: mail_Address

record DateTime =
  NativeTime :: Time

record Encodable =
  encoded :: "error + string"

record ('p, 'c) Event =
  Event_UID :: string
  Summary :: string
  Event_Description :: string
  Url :: "Encodable ptr"
  DateStart :: DateTime
  DateEnd :: DateTime
  Event_Location :: "Encodable ptr"
  Event_Organizer :: "OrganizerContact ptr"
  Event_Attendees :: "'p Attendee list"
  AccessClassification :: 'c
  Created :: DateTime
  LastModified :: "DateTime ptr"

text \<open>
  An interface value (\<open>properties.CanEncodeValue\<close>) is nil, or a container holding a
  pointer that may itself be nil.
\<close>

datatype CanEncodeValue = NilInterface | Boxed "Encodable ptr"

fun EncodeICalValue :: "CanEncodeValue \<Rightarrow> panic + (error + string)" where
  "EncodeICalValue NilInterface = Inl NilPointerDereference"
| "EncodeICalValue (Boxed None) = Inl NilPointerDereference"
| "EncodeICalValue (Boxed (Some v)) = Inr (encoded v)"

text \<open>\<open>reflect.ValueOf(value).IsNil()\<close>: the zero Value of a nil interface panics.\<close>

fun reflect_IsNil :: "CanEncodeValue \<Rightarrow> panic + bool" where
  "reflect_IsNil NilInterface = Inl ReflectZeroValue"
| "reflect_IsNil (Boxed p) = Inr (p = None)"

section \<open>The normalized item\<close>

text \<open>
  Modelled from the spec: the response-type enumeration of package \<open>rsvp\<close> is not among
  the sources. The specification names its member \<open>Unknown\<close>, the value reported when no
  attendee matches; the other members are kept apart by a number.
\<close>

datatype MeetingResponseType = Unknown | Response nat

text \<open>
  Modelled from the spec: the enumeration of package \<open>importance\<close> is not among the
  sources; the importance is always reported as unknown, the only member needed.
\<close>

datatype Importance = Importance_Unknown

record calendarListEntry =
  entry_path :: string
  entry_emailAddress :: string
  displayName :: string
  timeZone :: string

record emailAddress =
  name :: string
  address :: string

record attendee =
  attendee_emailAddress :: emailAddress
  attendee_responseType :: MeetingResponseType

record ('p, 'c, 's) calendarItem =
  Event :: "('p, 'c) Event"
  calendar :: calendarListEntry
  responseType :: MeetingResponseType
  organizer :: "emailAddress ptr"
  attendees :: "attendee list"
  sensitivity :: 's

text \<open>The conversions of the external \<open>convert\<close> package are parameters.\<close>

record ('p, 'c, 's) convert =
  ParticipationStatusToMeetingResponseType :: "'p \<Rightarrow> MeetingResponseType"
  EventAccessClassificationToSensitivity :: "'c \<Rightarrow> 's"

definition newEmailAddress :: "mail_Address \<Rightarrow> emailAddress" where
  "newEmailAddress email = \<lparr>name = mail_Name email, address = mail_Address email\<rparr>"

definition Name :: "emailAddress \<Rightarrow> string" where
  "Name email = name email"

definition Address :: "emailAddress \<Rightarrow> string" where
  "Address email = address email"

definition EmailAddress :: "attendee \<Rightarrow> emailAddress" where
  "EmailAddress a = attendee_emailAddress a"

definition attendee_ResponseType :: "attendee \<Rightarrow> MeetingResponseType" where
  "attendee_ResponseType a = attendee_responseType a"

definition unsafeToString :: "CanEncodeValue \<Rightarrow> panic + string" where
  "unsafeToString v =
     (if v = NilInterface then Inr ''''
      else case reflect_IsNil v of
             Inl p \<Rightarrow> Inl p
           | Inr True \<Rightarrow> Inr ''''
           | Inr False \<Rightarrow>
               (case EncodeICalValue v of
                  Inl p \<Rightarrow> Inl p
                | Inr (Inl err) \<Rightarrow> Inr ''''
                | Inr (Inr s) \<Rightarrow> Inr s))"

definition resolveOrganizer :: "OrganizerContact ptr \<Rightarrow> emailAddress ptr" where
  "resolveOrganizer org =
     (case org of
        None \<Rightarrow> None
      | Some contact \<Rightarrow> Some (newEmailAddress (OrganizerContact_Entry contact)))"

text \<open>The loop of \<open>resolveAttendees\<close> appends one entry per raw attendee.\<close>

fun resolveAttendees_loop ::
  "('p, 'c, 's) convert \<Rightarrow> 'p Attendee list \<Rightarrow> attendee list \<Rightarrow> attendee list" where
  "resolveAttendees_loop cv [] acc = acc"
| "resolveAttendees_loop cv (a # rest) acc =
     (let rt = ParticipationStatusToMeetingResponseType cv (ParticipationStatus a)
      in resolveAttendees_loop cv rest
           (acc @ [\<lparr>attendee_emailAddress = newEmailAddress (Attendee_Entry a),
                    attendee_responseType = rt\<rparr>]))"

definition resolveAttendees ::
  "('p, 'c, 's) convert \<Rightarrow> 'p Attendee list \<Rightarrow> attendee list" where
  "resolveAttendees cv eventAttendees = resolveAttendees_loop cv eventAttendees []"

fun findResponseType :: "string \<Rightarrow> attendee list \<Rightarrow> MeetingResponseType" where
  "findResponseType email [] = Unknown"
| "findResponseType email (a # rest) =
     (if Address (EmailAddress a) = email then attendee_ResponseType a
      else findResponseType email rest)"

definition newCalendarItem ::
  "('p, 'c, 's) convert \<Rightarrow> ('p, 'c) Event \<Rightarrow> calendarListEntry \<Rightarrow> ('p, 'c, 's) calendarItem" where
  "newCalendarItem cv event parentCalendar =
     (let as = resolveAttendees cv (Event_Attendees event)
      in \<lparr>Event = event,
          calendar = parentCalendar,
          responseType = findResponseType (entry_emailAddress parentCalendar) as,
          organizer = resolveOrganizer (Event_Organizer event),
          attendees = as,
          sensitivity = EventAccessClassificationToSensitivity cv (AccessClassification event)\<rparr>)"

subsection \<open>The accessors of the item\<close>

definition UID :: "('p, 'c, 's) calendarItem \<Rightarrow> string" where
  "UID item = Event_UID (Event item)"

definition Subject :: "('p, 'c, 's) calendarItem \<Rightarrow> string" where
  "Subject item = Summary (Event item)"

definition Description :: "('p, 'c, 's) calendarItem \<Rightarrow> string" where
  "Description item = Event_Description (Event item)"

definition URL :: "('p, 'c, 's) calendarItem \<Rightarrow> panic + string" where
  "URL item = unsafeToString (Boxed (Url (Event item)))"

definition Start :: "('p, 'c, 's) calendarItem \<Rightarrow> Time" where
  "Start item = NativeTime (DateStart (Event item))"

definition End :: "('p, 'c, 's) calendarItem \<Rightarrow> Time" where
  "End item = NativeTime (DateEnd (Event item))"

definition TimeZone :: "('p, 'c, 's) calendarItem \<Rightarrow> string" where
  "TimeZone item = timeZone (calendar item)"

definition Location :: "('p, 'c, 's) calendarItem \<Rightarrow> panic + string" where
  "Location item = unsafeToString (Boxed (Event_Location (Event item)))"

definition ResponseType :: "('p, 'c, 's) calendarItem \<Rightarrow> MeetingResponseType" where
  "ResponseType item = responseType item"

definition Organizer :: "('p, 'c, 's) calendarItem \<Rightarrow> emailAddress ptr" where
  "Organizer item = organizer item"

definition Attendees :: "('p, 'c, 's) calendarItem \<Rightarrow> attendee list" where
  "Attendees item = attendees item"

definition IsAllDay :: "('p, 'c, 's) calendarItem \<Rightarrow> bool" where
  "IsAllDay item =
     (IsZero (Truncate (Start item) Millisecond) \<and> IsZero (Truncate (End item) Millisecond))"

definition Importance :: "('p, 'c, 's) calendarItem \<Rightarrow> Importance" where
  "Importance item = Importance_Unknown"

definition Sensitivity :: "('p, 'c, 's) calendarItem \<Rightarrow> 's" where
  "Sensitivity item = sensitivity item"

definition CreatedAt :: "('p, 'c, 's) calendarItem \<Rightarrow> Time" where
  "CreatedAt item = NativeTime (Created (Event item))"

definition LastModifiedAt :: "('p, 'c, 's) calendarItem \<Rightarrow> Time" where
  "LastModifiedAt item =
     (case LastModified (Event item) of
        None \<Rightarrow> CreatedAt item
      | Some t \<Rightarrow> NativeTime t)"

definition CalendarID :: "('p, 'c, 's) calendarItem \<Rightarrow> string" where
  "CalendarID item = entry_path (calendar item)"

definition CalendarDisplayName :: "('p, 'c, 's) calendarItem \<Rightarrow> string" where
  "CalendarDisplayName item = displayName (calendar item)"

definition CalendarItemID :: "('p, 'c, 's) calendarItem \<Rightarrow> string" where
  "CalendarItemID item = Event_UID (Event item)"

section \<open>url.QueryUnescape\<close>

text \<open>
  \<open>url.QueryUnescape\<close> turns every \<open>%XY\<close> into the byte with hexadecimal digits
  \<open>X\<close> and \<open>Y\<close> and every \<open>+\<close> into a space. A \<open>%\<close> that is not followed by two
  hexadecimal digits is an \<open>EscapeError\<close> carrying at most three characters from the
  offending \<open>%\<close> on; the leftmost offence is the one reported.
\<close>

definition ishex :: "char \<Rightarrow> bool" where
  "ishex c =
     (let n = (of_char c :: nat)
      in (48 \<le> n \<and> n \<le> 57) \<or> (97 \<le> n \<and> n \<le> 102) \<or> (65 \<le> n \<and> n \<le> 70))"

definition unhex :: "char \<Rightarrow> nat" where
  "unhex c =
     (let n = (of_char c :: nat)
      in if 48 \<le> n \<and> n \<le> 57 then n - 48
         else if 97 \<le> n \<and> n \<le> 102 then n - 97 + 10
         else if 65 \<le> n \<and> n \<le> 70 then n - 65 + 10
         else 0)"

fun QueryUnescape :: "string \<Rightarrow> error + string" where
  "QueryUnescape [] = Inr []"
| "QueryUnescape (c # s) =
     (if c = CHR ''%'' then
        (case s of
           x # y # rest \<Rightarrow>
             if ishex x \<and> ishex y then
               (case QueryUnescape rest of
                  Inl err \<Rightarrow> Inl err
                | Inr t \<Rightarrow> Inr (char_of (16 * unhex x + unhex y) # t))
             else Inl (EscapeError (take 3 (c # s)))
         | _ \<Rightarrow> Inl (EscapeError (take 3 (c # s))))
      else
        (case QueryUnescape s of
           Inl err \<Rightarrow> Inl err
         | Inr t \<Rightarrow> Inr ((if c = CHR ''+'' then CHR '' '' else c) # t)))"

section \<open>WebDAV entities and the transport\<close>

text \<open>
  The multistatus entities of the WebDAV library, with the fields the code reads. The
  properties the code builds with \<open>&\<close> or tests against nil are pointers.
\<close>

record CurrentUserPrincipal =
  CurrentUserPrincipal_Href :: string

record CalendarHomeSet =
  CalendarHomeSet_Href :: string

record Component =
  Component_Name :: string

record SupportedCalendarComponentSet =
  Components :: "Component list"

record TimeZone_component =
  Id :: string

record Prop =
  DisplayName :: string
  CalendarTimezone :: "TimeZone_component ptr"
  SupportedCalendarComponentSet :: "SupportedCalendarComponentSet ptr"
  CurrentUserPrincipal :: "CurrentUserPrincipal ptr"
  CalendarHomeSet :: "CalendarHomeSet ptr"

record PropStat =
  Status :: string
  PropStat_Prop :: Prop

record Response =
  Response_Href :: string
  PropStats :: "PropStat list"

record Multistatus =
  Responses :: "Response list"

datatype Depth = Depth0 | Depth1

datatype Propfind_body =
    findCurrentUserPrincipalRequestBody
  | findCalendarHomeSetRequestBody
  | findCalendarsRequestBody

text \<open>
  A request names the server it goes to, the path, and what is asked. The remote side is
  a function of the requests issued so far and of the current request, so every
  operation takes the history of requests and returns it extended: the history is the
  only state of the pipeline, and it records which calls were made.
\<close>

datatype 'q request =
    PROPFIND string string Depth Propfind_body
  | REPORT string string 'q

record ('q, 'p, 'c) httpClient =
  propfind_answer :: "'q request list \<Rightarrow> 'q request \<Rightarrow> error + Multistatus"
  report_answer :: "'q request list \<Rightarrow> 'q request \<Rightarrow> error + ('p, 'c) Event list"

record ('q, 'p, 'c) caldav_Client =
  server :: string
  http :: "('q, 'p, 'c) httpClient"

definition caldav_NewClient ::
  "string \<Rightarrow> ('q, 'p, 'c) httpClient \<Rightarrow> ('q, 'p, 'c) caldav_Client" where
  "caldav_NewClient candidate hc = \<lparr>server = candidate, http = hc\<rparr>"

definition Propfind ::
  "('q, 'p, 'c) caldav_Client \<Rightarrow> string \<Rightarrow> Depth \<Rightarrow> Propfind_body \<Rightarrow> 'q request list
     \<Rightarrow> (error + Multistatus) \<times> 'q request list" where
  "Propfind c p d body h =
     (let rq = PROPFIND (server c) p d body
      in (propfind_answer (http c) h rq, h @ [rq]))"

definition QueryEvents ::
  "('q, 'p, 'c) caldav_Client \<Rightarrow> string \<Rightarrow> 'q \<Rightarrow> 'q request list
     \<Rightarrow> (error + ('p, 'c) Event list) \<times> 'q request list" where
  "QueryEvents c p query h =
     (let rq = REPORT (server c) p query
      in (report_answer (http c) h rq, h @ [rq]))"

section \<open>Discovery\<close>

definition paths :: "string list" where
  "paths = ['''', ''/caldav'', ''/caldav/st'', ''/.well-known/caldav'']"

definition wf11301 :: string where
  "wf11301 = ''WF11301: all attempts failed with the following errors:''"

definition WF11301 :: "error list \<Rightarrow> error" where
  "WF11301 errors = AggregateError wf11301 errors"

text \<open>\<open>xs[0]\<close> panics on an empty slice.\<close>

definition at0 :: "'a list \<Rightarrow> panic + 'a" where
  "at0 xs = (case xs of [] \<Rightarrow> Inl IndexOutOfRange | x # _ \<Rightarrow> Inr x)"

text \<open>\<open>multistatus.Responses[0].PropStats[0].Prop\<close>\<close>

definition firstProp :: "Multistatus \<Rightarrow> panic + Prop" where
  "firstProp multistatus =
     (case at0 (Responses multistatus) of
        Inl p \<Rightarrow> Inl p
      | Inr response \<Rightarrow>
          (case at0 (PropStats response) of
             Inl p \<Rightarrow> Inl p
           | Inr propstat \<Rightarrow> Inr (PropStat_Prop propstat)))"

definition findCalendarHomeSet ::
  "('q, 'p, 'c) caldav_Client \<Rightarrow> string \<Rightarrow> 'q request list
     \<Rightarrow> CalendarHomeSet ptr result \<times> 'q request list" where
  "findCalendarHomeSet c p h =
     (case Propfind c p Depth0 findCurrentUserPrincipalRequestBody h of
        (Inl err, h1) \<Rightarrow> (Err err, h1)
      | (Inr multistatus, h1) \<Rightarrow>
          (case firstProp multistatus of
             Inl pn \<Rightarrow> (Panic pn, h1)
           | Inr prop \<Rightarrow>
               (case CurrentUserPrincipal prop of
                  None \<Rightarrow> (Panic NilPointerDereference, h1)
                | Some userPrincipal \<Rightarrow>
                    (case QueryUnescape (CurrentUserPrincipal_Href userPrincipal) of
                       Inl err \<Rightarrow> (Err err, h1)
                     | Inr p' \<Rightarrow>
                         (case Propfind c p' Depth0 findCalendarHomeSetRequestBody h1 of
                            (Inl err, h2) \<Rightarrow> (Err err, h2)
                          | (Inr multistatus2, h2) \<Rightarrow>
                              (case firstProp multistatus2 of
                                 Inl pn \<Rightarrow> (Panic pn, h2)
                               | Inr prop2 \<Rightarrow> (Ok (CalendarHomeSet prop2), h2)))))))"

text \<open>
  The loop of \<open>discoverServer\<close>, with the errors collected so far. The source drops the
  error of \<open>caldav.NewServer\<close>; the server reference is the string \<open>https://\<close> followed by
  the host, and the remote side answers for it. \<open>WF11301\<close> also writes the aggregate
  error to the log, which is not part of the state modelled here.
\<close>

fun discoverServer_loop ::
  "string \<Rightarrow> ('q, 'p, 'c) httpClient \<Rightarrow> string list \<Rightarrow> error list \<Rightarrow> 'q request list
     \<Rightarrow> (('q, 'p, 'c) caldav_Client \<times> CalendarHomeSet ptr) result \<times> 'q request list" where
  "discoverServer_loop host hc [] errs h = (Err (WF11301 errs), h)"
| "discoverServer_loop host hc (p # rest) errs h =
     (let c = caldav_NewClient (''https://'' @ host) hc
      in case findCalendarHomeSet c p h of
           (Err err, h') \<Rightarrow> discoverServer_loop host hc rest (errs @ [err]) h'
         | (Ok calendarHomeSet, h') \<Rightarrow> (Ok (c, calendarHomeSet), h')
         | (Panic pn, h') \<Rightarrow> (Panic pn, h'))"

definition discoverServer ::
  "string \<Rightarrow> ('q, 'p, 'c) httpClient \<Rightarrow> 'q request list
     \<Rightarrow> (('q, 'p, 'c) caldav_Client \<times> CalendarHomeSet ptr) result \<times> 'q request list" where
  "discoverServer host hc h = discoverServer_loop host hc paths [] h"

record ('q, 'p, 'c) client =
  client_path :: string
  client_emailAddress :: string
  calendarClient :: "('q, 'p, 'c) caldav_Client"
  httpClient :: "('q, 'p, 'c) httpClient"

text \<open>
  \<open>NewClient\<close>: the parameter \<open>basicAuth\<close> stands for the HTTP client built from the
  shared transport and the credentials.
\<close>

definition NewClient ::
  "(string \<Rightarrow> string \<Rightarrow> ('q, 'p, 'c) httpClient) \<Rightarrow> string \<Rightarrow> string \<Rightarrow> string
     \<Rightarrow> 'q request list \<Rightarrow> ('q, 'p, 'c) client result \<times> 'q request list" where
  "NewClient basicAuth host username password h =
     (let hc = basicAuth username password
      in case discoverServer host hc h of
           (Err err, h') \<Rightarrow> (Err err, h')
         | (Panic pn, h') \<Rightarrow> (Panic pn, h')
         | (Ok (cc, calendarHomeSet), h') \<Rightarrow>
             (case calendarHomeSet of
                None \<Rightarrow> (Panic NilPointerDereference, h')
              | Some homeSet \<Rightarrow>
                  (case QueryUnescape (CalendarHomeSet_Href homeSet) of
                     Inl err \<Rightarrow> (Err err, h')
                   | Inr p \<Rightarrow>
                       (Ok \<lparr>client_path = p, client_emailAddress = username,
                            calendarClient = cc, httpClient = hc\<rparr>, h'))))"

section \<open>Enumeration and event queries\<close>

definition calendarType :: string where
  "calendarType = ''VEVENT''"

definition httpOK :: string where
  "httpOK = ''HTTP/1.1 200 OK''"

definition extractTimeZoneID :: "TimeZone_component ptr \<Rightarrow> string" where
  "extractTimeZoneID tz = (case tz of None \<Rightarrow> '''' | Some z \<Rightarrow> Id z)"

text \<open>
  The inner loop of \<open>findCalendars\<close> over the components of one response: at the first
  component named \<open>VEVENT\<close> it builds the entry (or returns the unescape error) and
  breaks; \<open>None\<close> means that the loop ended without a match.
\<close>

fun findCalendars_components ::
  "('q, 'p, 'c) client \<Rightarrow> Response \<Rightarrow> Prop \<Rightarrow> Component list
     \<Rightarrow> error + calendarListEntry option" where
  "findCalendars_components cl response prop [] = Inr None"
| "findCalendars_components cl response prop (component # rest) =
     (if Component_Name component = calendarType then
        (case QueryUnescape (Response_Href response) of
           Inl err \<Rightarrow> Inl err
         | Inr p \<Rightarrow>
             Inr (Some \<lparr>entry_path = p,
                        entry_emailAddress = client_emailAddress cl,
                        displayName = DisplayName prop,
                        timeZone = extractTimeZoneID (CalendarTimezone prop)\<rparr>))
      else findCalendars_components cl response prop rest)"

fun findCalendars_loop ::
  "('q, 'p, 'c) client \<Rightarrow> Response list \<Rightarrow> calendarListEntry list
     \<Rightarrow> calendarListEntry list result" where
  "findCalendars_loop cl [] calendars = Ok calendars"
| "findCalendars_loop cl (response # rest) calendars =
     (case at0 (PropStats response) of
        Inl pn \<Rightarrow> Panic pn
      | Inr propertyStatus \<Rightarrow>
          (case (Status propertyStatus = httpOK,
                 SupportedCalendarComponentSet (PropStat_Prop propertyStatus)) of
             (True, Some cs) \<Rightarrow>
               (case findCalendars_components cl response (PropStat_Prop propertyStatus)
                       (Components cs) of
                  Inl err \<Rightarrow> Err err
                | Inr None \<Rightarrow> findCalendars_loop cl rest calendars
                | Inr (Some cal) \<Rightarrow> findCalendars_loop cl rest (calendars @ [cal]))
           | _ \<Rightarrow> findCalendars_loop cl rest calendars))"

definition findCalendars ::
  "('q, 'p, 'c) client \<Rightarrow> 'q request list
     \<Rightarrow> calendarListEntry list result \<times> 'q request list" where
  "findCalendars cl h =
     (case Propfind (calendarClient cl) (client_path cl) Depth1 findCalendarsRequestBody h of
        (Inl err, h') \<Rightarrow> (Err err, h')
      | (Inr multistatus, h') \<Rightarrow> (findCalendars_loop cl (Responses multistatus) [], h'))"

text \<open>The inner loop of \<open>CalendarEvents\<close> appends the mapped events one by one.\<close>

definition appendItems ::
  "('p, 'c, 's) convert \<Rightarrow> calendarListEntry \<Rightarrow> ('p, 'c, 's) calendarItem list
     \<Rightarrow> ('p, 'c) Event list \<Rightarrow> ('p, 'c, 's) calendarItem list" where
  "appendItems cv cal calendarItems events =
     foldl (\<lambda>items event. items @ [newCalendarItem cv event cal]) calendarItems events"

fun CalendarEvents_loop ::
  "('p, 'c, 's) convert \<Rightarrow> ('q, 'p, 'c) client \<Rightarrow> 'q \<Rightarrow> calendarListEntry list
     \<Rightarrow> ('p, 'c, 's) calendarItem list \<Rightarrow> 'q request list
     \<Rightarrow> ('p, 'c, 's) calendarItem list result \<times> 'q request list" where
  "CalendarEvents_loop cv cl query [] calendarItems h = (Ok calendarItems, h)"
| "CalendarEvents_loop cv cl query (cal # rest) calendarItems h =
     (case QueryEvents (calendarClient cl) (entry_path cal) query h of
        (Inl err, h') \<Rightarrow> (Err err, h')
      | (Inr events, h') \<Rightarrow>
          CalendarEvents_loop cv cl query rest (appendItems cv cal calendarItems events) h')"

text \<open>
  \<open>CalendarEvents\<close>: the constructor of the range query belongs to the CalDAV library
  and is the parameter \<open>NewEventRangeQuery\<close>.
\<close>

definition CalendarEvents ::
  "(Time \<Rightarrow> Time \<Rightarrow> error + 'q) \<Rightarrow> ('p, 'c, 's) convert \<Rightarrow> ('q, 'p, 'c) client
     \<Rightarrow> Time \<Rightarrow> Time \<Rightarrow> 'q request list
     \<Rightarrow> ('p, 'c, 's) calendarItem list result \<times> 'q request list" where
  "CalendarEvents NewEventRangeQuery cv cl startUTC endUTC h =
     (case NewEventRangeQuery startUTC endUTC of
        Inl err \<Rightarrow> (Err err, h)
      | Inr query \<Rightarrow>
          (case findCalendars cl h of
             (Err err, h') \<Rightarrow> (Err err, h')
           | (Panic pn, h') \<Rightarrow> (Panic pn, h')
           | (Ok calendars, h') \<Rightarrow> CalendarEvents_loop cv cl query calendars [] h'))"

section \<open>Notions used to state the properties\<close>

text \<open>
  \<open>attempts\<close> is the schedule of discovery: the outcome of every candidate path, each run
  in the history its predecessor left, whatever that predecessor returned.
  \<open>queries\<close> is the same schedule for the event queries of a list of calendars.
\<close>

fun attempts ::
  "string \<Rightarrow> ('q, 'p, 'c) httpClient \<Rightarrow> string list \<Rightarrow> 'q request list
     \<Rightarrow> (CalendarHomeSet ptr result \<times> 'q request list) list" where
  "attempts host hc [] h = []"
| "attempts host hc (p # rest) h =
     (let r = findCalendarHomeSet (caldav_NewClient (''https://'' @ host) hc) p h
      in r # attempts host hc rest (snd r))"

fun queries ::
  "('q, 'p, 'c) client \<Rightarrow> 'q \<Rightarrow> calendarListEntry list \<Rightarrow> 'q request list
     \<Rightarrow> ((error + ('p, 'c) Event list) \<times> 'q request list) list" where
  "queries cl query [] h = []"
| "queries cl query (cal # rest) h =
     (let r = QueryEvents (calendarClient cl) (entry_path cal) query h
      in r # queries cl query rest (snd r))"

text \<open>
  The paths at which a history asks for the current user principal (one such request
  opens every discovery attempt), and the paths at which it queries events.
\<close>

fun probed :: "'q request list \<Rightarrow> string list" where
  "probed [] = []"
| "probed (PROPFIND b p d body # rs) =
     (if body = findCurrentUserPrincipalRequestBody then p # probed rs else probed rs)"
| "probed (REPORT b p query # rs) = probed rs"

fun reported :: "'q request list \<Rightarrow> string list" where
  "reported [] = []"
| "reported (PROPFIND b p d body # rs) = reported rs"
| "reported (REPORT b p query # rs) = p # reported rs"

text \<open>
  The filter of the enumeration in the words of the specification: the status of the
  entry is success and its supported-component-set includes the event component type.
\<close>

definition supportsEvents :: "Response \<Rightarrow> bool" where
  "supportsEvents r =
     (case PropStats r of
        [] \<Rightarrow> False
      | propstat # _ \<Rightarrow>
          Status propstat = httpOK \<and>
          (case SupportedCalendarComponentSet (PropStat_Prop propstat) of
             None \<Rightarrow> False
           | Some cs \<Rightarrow> calendarType \<in> set (map Component_Name (Components cs))))"

text \<open>The list entry expected for a response, given its unescaped path.\<close>

definition expectedEntry ::
  "('q, 'p, 'c) client \<Rightarrow> Response \<Rightarrow> string \<Rightarrow> calendarListEntry" where
  "expectedEntry cl r p =
     (let prop = PropStat_Prop (hd (PropStats r))
      in \<lparr>entry_path = p,
          entry_emailAddress = client_emailAddress cl,
          displayName = DisplayName prop,
          timeZone = extractTimeZoneID (CalendarTimezone prop)\<rparr>)"

section \<open>Sample data\<close>

definition sample_convert :: "(nat, nat, nat) convert" where
  "sample_convert =
     \<lparr>ParticipationStatusToMeetingResponseType = (\<lambda>n. if n = 0 then Unknown else Response n),
      EventAccessClassificationToSensitivity = (\<lambda>c. c)\<rparr>"

definition sample_calendar :: calendarListEntry where
  "sample_calendar =
     \<lparr>entry_path = ''/calendars/amy@example.org/work/'',
      entry_emailAddress = ''amy@example.org'',
      displayName = ''Work'', timeZone = ''Europe/Berlin''\<rparr>"

text \<open>
  An event that starts one millisecond after the zero time and ends at the zero time,
  organized by the owner of the calendar, with no attendees.
\<close>

definition sample_event :: "(nat, nat) Event" where
  "sample_event =
     \<lparr>Event_UID = ''uid-1'', Summary = ''Standup'', Event_Description = '''',
      Url = None,
      DateStart = \<lparr>NativeTime = 1000000\<rparr>,
      DateEnd = \<lparr>NativeTime = 0\<rparr>,
      Event_Location = Some \<lparr>encoded = Inl (ExternalError ''invalid value'')\<rparr>,
      Event_Organizer =
        Some \<lparr>OrganizerContact_Entry =
                \<lparr>mail_Name = ''Amy'', mail_Address = ''amy@example.org''\<rparr>\<rparr>,
      Event_Attendees = [],
      AccessClassification = 0,
      Created = \<lparr>NativeTime = 5\<rparr>,
      LastModified = None\<rparr>"

definition emptyProp :: Prop where
  "emptyProp =
     \<lparr>DisplayName = '''', CalendarTimezone = None, SupportedCalendarComponentSet = None,
      CurrentUserPrincipal = None, CalendarHomeSet = None\<rparr>"

definition single :: "string \<Rightarrow> Prop \<Rightarrow> Response" where
  "single href prop =
     \<lparr>Response_Href = href, PropStats = [\<lparr>Status = httpOK, PropStat_Prop = prop\<rparr>]\<rparr>"

text \<open>A remote side whose answers depend on the path and on what is asked only.\<close>

definition static_http ::
  "(string \<Rightarrow> Propfind_body \<Rightarrow> error + Multistatus) \<Rightarrow> (string \<Rightarrow> error + (nat, nat) Event list)
     \<Rightarrow> (Time \<times> Time, nat, nat) httpClient" where
  "static_http f g =
     \<lparr>propfind_answer =
        (\<lambda>h rq. case rq of
                  PROPFIND b p d body \<Rightarrow> f p body
                | REPORT b p query \<Rightarrow> Inl (ExternalError ''405 Method Not Allowed'')),
      report_answer =
        (\<lambda>h rq. case rq of
                  PROPFIND b p d body \<Rightarrow> Inl (ExternalError ''405 Method Not Allowed'')
                | REPORT b p query \<Rightarrow> g p)\<rparr>"

definition refusing_http :: "(Time \<times> Time, nat, nat) httpClient" where
  "refusing_http =
     static_http (\<lambda>p body. Inl (ExternalError (''404 '' @ p)))
                 (\<lambda>p. Inl (ExternalError (''404 '' @ p)))"

text \<open>
  The scenario of the specification: on \<open>cal.example.org\<close> the candidates \<open>""\<close> and
  \<open>/caldav\<close> fail and \<open>/caldav/st\<close> succeeds. The calendar home holds the collection
  itself, a calendar for events and to-dos, one for to-dos only, one whose status is not
  success, and one for events only.
\<close>

definition scenario_calendars :: Multistatus where
  "scenario_calendars =
     \<lparr>Responses =
        [single ''/calendars/amy%40example.org/'' emptyProp,
         single ''/calendars/amy%40example.org/work/''
           (emptyProp\<lparr>DisplayName := ''Work'',
                      CalendarTimezone := Some \<lparr>Id = ''Europe/Berlin''\<rparr>,
                      SupportedCalendarComponentSet :=
                        Some \<lparr>Components = [\<lparr>Component_Name = ''VTODO''\<rparr>,
                                            \<lparr>Component_Name = ''VEVENT''\<rparr>]\<rparr>\<rparr>),
         single ''/calendars/amy%40example.org/tasks/''
           (emptyProp\<lparr>DisplayName := ''Tasks'',
                      SupportedCalendarComponentSet :=
                        Some \<lparr>Components = [\<lparr>Component_Name = ''VTODO''\<rparr>]\<rparr>\<rparr>),
         \<lparr>Response_Href = ''/calendars/amy%40example.org/old/'',
          PropStats =
            [\<lparr>Status = ''HTTP/1.1 404 Not Found'',
              PropStat_Prop =
                emptyProp\<lparr>SupportedCalendarComponentSet :=
                             Some \<lparr>Components = [\<lparr>Component_Name = ''VEVENT''\<rparr>]\<rparr>\<rparr>\<rparr>]\<rparr>,
         single ''/calendars/amy%40example.org/home/''
           (emptyProp\<lparr>DisplayName := ''Home'',
                      SupportedCalendarComponentSet :=
                        Some \<lparr>Components = [\<lparr>Component_Name = ''VEVENT''\<rparr>]\<rparr>\<rparr>)]\<rparr>"

definition scenario_propfind :: "string \<Rightarrow> Propfind_body \<Rightarrow> error + Multistatus" where
  "scenario_propfind p body =
     (case body of
        findCurrentUserPrincipalRequestBody \<Rightarrow>
          if p = ''/caldav/st'' then
            Inr \<lparr>Responses =
                  [single p (emptyProp\<lparr>CurrentUserPrincipal :=
                      Some \<lparr>CurrentUserPrincipal_Href = ''/principals/amy/''\<rparr>\<rparr>)]\<rparr>
          else Inl (ExternalError (''404 '' @ p))
      | findCalendarHomeSetRequestBody \<Rightarrow>
          if p = ''/principals/amy/'' then
            Inr \<lparr>Responses =
                  [single p (emptyProp\<lparr>CalendarHomeSet :=
                      Some \<lparr>CalendarHomeSet_Href = ''/calendars/amy%40example.org/''\<rparr>\<rparr>)]\<rparr>
          else Inl (ExternalError (''404 '' @ p))
      | findCalendarsRequestBody \<Rightarrow>
          if p = ''/calendars/amy@example.org/'' then Inr scenario_calendars
          else Inl (ExternalError (''404 '' @ p)))"

definition scenario_report :: "string \<Rightarrow> error + (nat, nat) Event list" where
  "scenario_report p =
     (if p = ''/calendars/amy@example.org/work/'' then
        Inr [sample_event\<lparr>Event_UID := ''uid-2'',
                          DateStart := \<lparr>NativeTime = 7000000000\<rparr>\<rparr>,
             sample_event]
      else if p = ''/calendars/amy@example.org/home/'' then
        Inr [sample_event\<lparr>Event_UID := ''uid-0'', DateStart := \<lparr>NativeTime = 0\<rparr>\<rparr>]
      else Inl (ExternalError (''404 '' @ p)))"

definition scenario_http :: "(Time \<times> Time, nat, nat) httpClient" where
  "scenario_http = static_http scenario_propfind scenario_report"

definition scenario_client :: "(Time \<times> Time, nat, nat) client" where
  "scenario_client =
     \<lparr>client_path = ''/calendars/amy@example.org/'',
      client_emailAddress = ''amy@example.org'',
      calendarClient = caldav_NewClient ''https://cal.example.org'' scenario_http,
      httpClient = scenario_http\<rparr>"

definition home_calendar :: calendarListEntry where
  "home_calendar =
     \<lparr>entry_path = ''/calendars/amy@example.org/home/'',
      entry_emailAddress = ''amy@example.org'',
      displayName = ''Home'', timeZone = ''''\<rparr>"

text \<open>The same server, except that the event query of the first calendar fails.\<close>

definition flaky_http :: "(Time \<times> Time, nat, nat) httpClient" where
  "flaky_http =
     static_http scenario_propfind
       (\<lambda>p. if p = ''/calendars/amy@example.org/home/'' then Inr [sample_event]
             else Inl (ExternalError (''503 '' @ p)))"

definition flaky_client :: "(Time \<times> Time, nat, nat) client" where
  "flaky_client =
     \<lparr>client_path = ''/calendars/amy@example.org/'',
      client_emailAddress = ''amy@example.org'',
      calendarClient = caldav_NewClient ''https://cal.example.org'' flaky_http,
      httpClient = flaky_http\<rparr>"

text \<open>
  Servers whose answers arrive but lack what discovery reads: a response without any
  property status (what a server that honours \<open>Prefer: return-minimal\<close> sends for a
  property it does not know), a property status without the current user principal, and
  a second answer without the calendar home set.
\<close>

definition http_without_propstat :: "(Time \<times> Time, nat, nat) httpClient" where
  "http_without_propstat =
     static_http (\<lambda>p body. Inr \<lparr>Responses = [\<lparr>Response_Href = p, PropStats = []\<rparr>]\<rparr>)
                 (\<lambda>p. Inr [])"

definition http_without_principal :: "(Time \<times> Time, nat, nat) httpClient" where
  "http_without_principal =
     static_http (\<lambda>p body. Inr \<lparr>Responses = [single p emptyProp]\<rparr>) (\<lambda>p. Inr [])"

definition http_without_homeset :: "(Time \<times> Time, nat, nat) httpClient" where
  "http_without_homeset =
     static_http
       (\<lambda>p body. case body of
           findCurrentUserPrincipalRequestBody \<Rightarrow>
             Inr \<lparr>Responses =
                   [single p (emptyProp\<lparr>CurrentUserPrincipal :=
                       Some \<lparr>CurrentUserPrincipal_Href = ''/principals/amy/''\<rparr>\<rparr>)]\<rparr>
         | _ \<Rightarrow> Inr \<lparr>Responses = [single p emptyProp]\<rparr>)
       (\<lambda>p. Inr [])"

text \<open>A calendar home with one event calendar whose reference is not a valid escape.\<close>

definition percent_calendar :: Response where
  "percent_calendar =
     single ''/calendars/amy/100%/''
       (emptyProp\<lparr>DisplayName := ''100%'',
                  SupportedCalendarComponentSet :=
                    Some \<lparr>Components = [\<lparr>Component_Name = ''VEVENT''\<rparr>]\<rparr>\<rparr>)"

definition percent_client :: "(Time \<times> Time, nat, nat) client" where
  "percent_client =
     \<lparr>client_path = ''/calendars/amy/'',
      client_emailAddress = ''amy@example.org'',
      calendarClient =
        caldav_NewClient ''https://cal.example.org''
          (static_http (\<lambda>p body. Inr \<lparr>Responses = [percent_calendar]\<rparr>) (\<lambda>p. Inr [])),
      httpClient = static_http (\<lambda>p body. Inr \<lparr>Responses = [percent_calendar]\<rparr>) (\<lambda>p. Inr [])\<rparr>"

section \<open>Properties of the item mapper\<close>

lemma Event_newCalendarItem [simp]: "Event (newCalendarItem cv event cal) = event"
  by (simp add: newCalendarItem_def Let_def)

lemma calendar_newCalendarItem [simp]: "calendar (newCalendarItem cv event cal) = cal"
  by (simp add: newCalendarItem_def Let_def)

lemma Truncate_zero_iff:
  assumes "0 < d"
  shows "Truncate t d = zeroTime \<longleftrightarrow> (0 \<le> t \<and> t < d)"
proof
  assume "Truncate t d = zeroTime"
  with assms have "t = t mod d"
    by (simp add: Truncate_def zeroTime_def)
  with assms show "0 \<le> t \<and> t < d"
    by (metis pos_mod_bound pos_mod_sign)
next
  assume "0 \<le> t \<and> t < d"
  with assms show "Truncate t d = zeroTime"
    by (simp add: Truncate_def zeroTime_def)
qed

text \<open>
  C1, as the code has it: for every mapped event, \<open>IsAllDay\<close> is true if and only if both
  the mapped start time and the mapped end time, truncated to whole-millisecond
  resolution, equal the zero time value; that is, if and only if both raw times lie in
  the first millisecond from the zero time.
\<close>

theorem IsAllDay_millisecond:
  "(IsAllDay (newCalendarItem cv event cal) \<longleftrightarrow>
      (Truncate (Start (newCalendarItem cv event cal)) Millisecond = zeroTime \<and>
       Truncate (End (newCalendarItem cv event cal)) Millisecond = zeroTime))
   \<and> (IsAllDay (newCalendarItem cv event cal) \<longleftrightarrow>
      (0 \<le> NativeTime (DateStart event) \<and> NativeTime (DateStart event) < 1000000 \<and>
       0 \<le> NativeTime (DateEnd event) \<and> NativeTime (DateEnd event) < 1000000))"
  by (simp add: IsAllDay_def IsZero_def Start_def End_def Truncate_zero_iff Millisecond_def)

text \<open>
  C1 as stated, with whole-second resolution, fails for the event that starts one
  millisecond after the zero time and ends at the zero time: both times truncate to the
  zero time at one-second resolution, and \<open>IsAllDay\<close> is false.
\<close>

theorem IsAllDay_second_counterexample:
  "\<not> (IsAllDay (newCalendarItem sample_convert sample_event sample_calendar) \<longleftrightarrow>
       (Truncate (Start (newCalendarItem sample_convert sample_event sample_calendar)) Second
          = zeroTime \<and>
        Truncate (End (newCalendarItem sample_convert sample_event sample_calendar)) Second
          = zeroTime))"
  by (simp add: IsAllDay_def IsZero_def Truncate_def zeroTime_def Start_def End_def
        sample_event_def Millisecond_def Second_def)

lemma unsafeToString_eq:
  "unsafeToString v =
     Inr (case v of
            NilInterface \<Rightarrow> ''''
          | Boxed None \<Rightarrow> ''''
          | Boxed (Some x) \<Rightarrow> (case encoded x of Inl err \<Rightarrow> '''' | Inr s \<Rightarrow> s))"
  by (simp add: unsafeToString_def split: CanEncodeValue.split option.split sum.split)

text \<open>
  C3: for every raw event and owning calendar the mapping yields an item, and reading the
  item neither panics nor fails: \<open>URL\<close> and \<open>Location\<close> return a string, which is empty
  when the raw value is a nil pointer (boxed in the interface that \<open>unsafeToString\<close>
  takes) or when its encoding fails, and is the encoding otherwise; \<open>unsafeToString\<close>
  returns the empty string for a nil interface as well; the organizer is absent exactly
  when the raw organizer is nil; every raw attendee yields one attendee.
\<close>

theorem newCalendarItem_total:
  "URL (newCalendarItem cv event cal) =
     Inr (case Url event of
            None \<Rightarrow> ''''
          | Some x \<Rightarrow> (case encoded x of Inl err \<Rightarrow> '''' | Inr s \<Rightarrow> s))
   \<and> Location (newCalendarItem cv event cal) =
     Inr (case Event_Location event of
            None \<Rightarrow> ''''
          | Some x \<Rightarrow> (case encoded x of Inl err \<Rightarrow> '''' | Inr s \<Rightarrow> s))
   \<and> unsafeToString NilInterface = Inr ''''
   \<and> Organizer (newCalendarItem cv event cal) =
     (case Event_Organizer event of
        None \<Rightarrow> None
      | Some contact \<Rightarrow> Some (newEmailAddress (OrganizerContact_Entry contact)))
   \<and> length (Attendees (newCalendarItem cv event cal)) = length (Event_Attendees event)"
proof -
  have "organizer (newCalendarItem cv event cal) = resolveOrganizer (Event_Organizer event)"
    by (simp add: newCalendarItem_def Let_def)
  moreover have "attendees (newCalendarItem cv event cal) =
      resolveAttendees cv (Event_Attendees event)"
    by (simp add: newCalendarItem_def Let_def)
  moreover have "length (resolveAttendees_loop cv as acc) = length acc + length as" for as acc
    by (induction as arbitrary: acc) (simp_all add: Let_def)
  ultimately show ?thesis
    by (simp add: URL_def Location_def Organizer_def Attendees_def unsafeToString_eq
          resolveOrganizer_def resolveAttendees_def)
qed

lemma resolveAttendees_loop_eq:
  "resolveAttendees_loop cv as acc =
     acc @ map (\<lambda>a. \<lparr>attendee_emailAddress = newEmailAddress (Attendee_Entry a),
                     attendee_responseType =
                       ParticipationStatusToMeetingResponseType cv (ParticipationStatus a)\<rparr>) as"
  by (induction as arbitrary: acc) (simp_all add: Let_def)

lemma findResponseType_map:
  "findResponseType email
     (map (\<lambda>a. \<lparr>attendee_emailAddress = newEmailAddress (Attendee_Entry a),
                attendee_responseType =
                  ParticipationStatusToMeetingResponseType cv (ParticipationStatus a)\<rparr>) as) =
   (case find (\<lambda>a. mail_Address (Attendee_Entry a) = email) as of
      None \<Rightarrow> Unknown
    | Some a \<Rightarrow> ParticipationStatusToMeetingResponseType cv (ParticipationStatus a))"
  by (induction as)
     (simp_all add: Address_def EmailAddress_def attendee_ResponseType_def newEmailAddress_def)

text \<open>
  C7: the top-level response type of a mapped event is that of the first attendee whose
  address equals the account address of the owning calendar (equality of the address
  strings; the name plays no part), and \<open>Unknown\<close> when there is no such attendee; an
  event without attendees has response type \<open>Unknown\<close>, whoever its organizer is.
\<close>

theorem responseType_matching_attendee:
  "ResponseType (newCalendarItem cv event cal) =
     (case find (\<lambda>a. mail_Address (Attendee_Entry a) = entry_emailAddress cal)
             (Event_Attendees event) of
        None \<Rightarrow> Unknown
      | Some a \<Rightarrow> ParticipationStatusToMeetingResponseType cv (ParticipationStatus a))
   \<and> ResponseType (newCalendarItem cv (event\<lparr>Event_Attendees := []\<rparr>) cal) = Unknown"
  by (simp add: ResponseType_def newCalendarItem_def Let_def resolveAttendees_def
        resolveAttendees_loop_eq findResponseType_map)

text \<open>
  The comparison is exact: an attendee whose address differs in case only is passed
  over, and an attendee with the account address matches under any name.
\<close>

lemma responseType_exact_match_example:
  "ResponseType
     (newCalendarItem sample_convert
        (sample_event\<lparr>Event_Attendees :=
           [\<lparr>Attendee_Entry = \<lparr>mail_Name = ''Amy'', mail_Address = ''Amy@Example.org''\<rparr>,
             ParticipationStatus = 1\<rparr>,
            \<lparr>Attendee_Entry = \<lparr>mail_Name = ''Bob'', mail_Address = ''amy@example.org''\<rparr>,
             ParticipationStatus = 2\<rparr>]\<rparr>)
        sample_calendar) = Response 2"
  by (simp add: ResponseType_def newCalendarItem_def Let_def resolveAttendees_def
        Address_def EmailAddress_def attendee_ResponseType_def newEmailAddress_def
        sample_convert_def sample_calendar_def)

text \<open>
  C10: for every mapped event the item identifier equals the uid: both are the UID field
  of the raw event.
\<close>

theorem CalendarItemID_is_UID:
  "CalendarItemID (newCalendarItem cv event cal) = UID (newCalendarItem cv event cal)
   \<and> UID (newCalendarItem cv event cal) = Event_UID event"
  by (simp add: CalendarItemID_def UID_def)

section \<open>Properties of discovery\<close>

lemma probed_append [simp]: "probed (xs @ ys) = probed xs @ probed ys"
  by (induction xs rule: probed.induct) simp_all

lemma reported_append [simp]: "reported (xs @ ys) = reported xs @ reported ys"
  by (induction xs rule: reported.induct) simp_all

text \<open>Every attempt extends the history, and asks for the principal at its path once.\<close>

lemma findCalendarHomeSet_history:
  "\<exists>new. snd (findCalendarHomeSet c p h) = h @ new \<and> probed new = [p]"
  by (simp add: findCalendarHomeSet_def Propfind_def Let_def
      split: sum.split option.split prod.split)

lemma attempts_length [simp]: "length (attempts host hc ps h) = length ps"
  by (induction ps arbitrary: h) (simp_all add: Let_def)

lemma loop_all_fail:
  "map fst (attempts host hc ps h) = map Err es \<Longrightarrow>
   \<exists>new. discoverServer_loop host hc ps errs h = (Err (WF11301 (errs @ es)), h @ new)
        \<and> probed new = ps"
proof (induction ps arbitrary: h errs es)
  case Nil
  then show ?case by simp
next
  case (Cons p ps)
  let ?c = "caldav_NewClient (''https://'' @ host) hc"
  obtain r h1 where r: "findCalendarHomeSet ?c p h = (r, h1)"
    by (cases "findCalendarHomeSet ?c p h")
  from Cons.prems r obtain e es' where es: "es = e # es'" and re: "r = Err e"
    and rest: "map fst (attempts host hc ps h1) = map Err es'"
    by (cases es) (auto simp: Let_def)
  from findCalendarHomeSet_history [of ?c p h] r obtain n1 where
    h1: "h1 = h @ n1" and p1: "probed n1 = [p]"
    by auto
  from Cons.IH [OF rest, of "errs @ [e]"] obtain n2 where
    l: "discoverServer_loop host hc ps (errs @ [e]) h1 =
          (Err (WF11301 ((errs @ [e]) @ es')), h1 @ n2)"
    and p2: "probed n2 = ps"
    by blast
  have "discoverServer_loop host hc (p # ps) errs h =
      (Err (WF11301 (errs @ es)), h @ (n1 @ n2))"
    using r re l es h1 by (simp add: Let_def)
  moreover have "probed (n1 @ n2) = p # ps"
    using p1 p2 by simp
  ultimately show ?case by blast
qed

lemma loop_first_success:
  "k < length ps \<Longrightarrow> map fst (take k (attempts host hc ps h)) = map Err es \<Longrightarrow>
   attempts host hc ps h ! k = (Ok homeSet, h') \<Longrightarrow>
   discoverServer_loop host hc ps errs h =
     (Ok (caldav_NewClient (''https://'' @ host) hc, homeSet), h')
   \<and> (\<exists>new. h' = h @ new \<and> probed new = take (Suc k) ps)"
proof (induction ps arbitrary: k h errs es)
  case Nil
  then show ?case by simp
next
  case (Cons p ps)
  let ?c = "caldav_NewClient (''https://'' @ host) hc"
  obtain r h1 where r: "findCalendarHomeSet ?c p h = (r, h1)"
    by (cases "findCalendarHomeSet ?c p h")
  from findCalendarHomeSet_history [of ?c p h] r obtain n1 where
    h1: "h1 = h @ n1" and p1: "probed n1 = [p]"
    by auto
  show ?case
  proof (cases k)
    case 0
    with Cons.prems r have "r = Ok homeSet" "h1 = h'"
      by (simp_all add: Let_def)
    with r h1 p1 0 show ?thesis
      by (simp add: Let_def)
  next
    case (Suc j)
    from Cons.prems r Suc obtain e es' where es: "es = e # es'" and re: "r = Err e"
      and rest: "map fst (take j (attempts host hc ps h1)) = map Err es'"
      by (cases es) (auto simp: Let_def)
    from Cons.prems Suc r have j: "j < length ps"
      and at: "attempts host hc ps h1 ! j = (Ok homeSet, h')"
      by (simp_all add: Let_def)
    from Cons.IH [OF j rest at, of "errs @ [e]"] obtain n2 where
      l: "discoverServer_loop host hc ps (errs @ [e]) h1 = (Ok (?c, homeSet), h')"
      and h': "h' = h1 @ n2" and p2: "probed n2 = take (Suc j) ps"
      by blast
    have "discoverServer_loop host hc (p # ps) errs h = (Ok (?c, homeSet), h')"
      using r re l by (simp add: Let_def)
    moreover have "h' = h @ (n1 @ n2)" "probed (n1 @ n2) = take (Suc k) (p # ps)"
      using h' h1 p1 p2 Suc by simp_all
    ultimately show ?thesis by blast
  qed
qed

text \<open>
  C4: when every discovery candidate fails, with the errors \<open>errs\<close> in candidate order,
  discovery returns the single aggregate error whose causes are \<open>errs\<close>: one entry per
  candidate, in candidate order; and every candidate path was probed, in order.
\<close>

theorem discoverServer_all_fail:
  assumes "map fst (attempts host (basicAuth username password) paths h) = map Err errs"
  shows "fst (discoverServer host (basicAuth username password) h) =
           Err (AggregateError wf11301 errs)
       \<and> fst (NewClient basicAuth host username password h) =
           Err (AggregateError wf11301 errs)
       \<and> length errs = length paths
       \<and> probed (drop (length h) (snd (discoverServer host (basicAuth username password) h)))
           = paths"
proof -
  let ?hc = "basicAuth username password"
  from loop_all_fail [OF assms, of "[]"] obtain new where
    d: "discoverServer_loop host ?hc paths [] h = (Err (WF11301 errs), h @ new)"
    and "probed new = paths"
    by auto
  moreover from assms have "length errs = length paths"
    using attempts_length [of host ?hc paths h] by (metis length_map)
  ultimately show ?thesis
    by (simp add: NewClient_def Let_def discoverServer_def WF11301_def)
qed

theorem discoverServer_all_fail_witness:
  "map fst (attempts ''cal.example.org''
              ((\<lambda>u pw. refusing_http) ''amy@example.org'' ''secret'') paths []) =
     map Err [ExternalError ''404 '', ExternalError ''404 /caldav'',
              ExternalError ''404 /caldav/st'', ExternalError ''404 /.well-known/caldav'']
   \<and> fst (NewClient (\<lambda>u pw. refusing_http) ''cal.example.org'' ''amy@example.org''
            ''secret'' []) =
       Err (AggregateError wf11301
             [ExternalError ''404 '', ExternalError ''404 /caldav'',
              ExternalError ''404 /caldav/st'', ExternalError ''404 /.well-known/caldav''])"
proof -
  have a: "map fst (attempts ''cal.example.org''
              ((\<lambda>u pw. refusing_http) ''amy@example.org'' ''secret'') paths []) =
     map Err [ExternalError ''404 '', ExternalError ''404 /caldav'',
              ExternalError ''404 /caldav/st'', ExternalError ''404 /.well-known/caldav'']"
    by (simp add: paths_def refusing_http_def static_http_def findCalendarHomeSet_def
          Propfind_def caldav_NewClient_def Let_def)
  from discoverServer_all_fail [OF a] a show ?thesis by simp
qed

text \<open>
  C5: discovery tries the candidate paths in order and stops at the first candidate for
  which both property queries succeed. When the candidates before position \<open>k\<close> fail and
  candidate \<open>k\<close> yields a calendar home set whose reference unescapes to \<open>p\<close>, the client
  returned is bound to \<open>p\<close>, and the paths probed are exactly the candidates up to and
  including \<open>k\<close>, in order: no later candidate is attempted.
\<close>

theorem first_success_wins:
  assumes "k < length paths"
    and "map fst (take k (attempts host (basicAuth username password) paths h)) = map Err errs"
    and "attempts host (basicAuth username password) paths h ! k = (Ok (Some homeSet), h')"
    and "QueryUnescape (CalendarHomeSet_Href homeSet) = Inr p"
  shows "NewClient basicAuth host username password h =
           (Ok \<lparr>client_path = p, client_emailAddress = username,
                calendarClient =
                  caldav_NewClient (''https://'' @ host) (basicAuth username password),
                httpClient = basicAuth username password\<rparr>, h')
       \<and> discoverServer host (basicAuth username password) h =
           (Ok (caldav_NewClient (''https://'' @ host) (basicAuth username password),
                Some homeSet), h')
       \<and> probed (drop (length h) h') = take (Suc k) paths"
proof -
  from loop_first_success [OF assms(1) assms(2) assms(3), of "[]"] obtain new where
    d: "discoverServer host (basicAuth username password) h =
          (Ok (caldav_NewClient (''https://'' @ host) (basicAuth username password),
               Some homeSet), h')"
    and "h' = h @ new" "probed new = take (Suc k) paths"
    by (auto simp: discoverServer_def)
  then show ?thesis
    using assms(4) by (simp add: NewClient_def Let_def)
qed

theorem first_success_wins_witness:
  "(2::nat) < length paths
   \<and> map fst (take 2 (attempts ''cal.example.org''
                        ((\<lambda>u pw. scenario_http) ''amy@example.org'' ''secret'') paths [])) =
       map Err [ExternalError ''404 '', ExternalError ''404 /caldav'']
   \<and> QueryUnescape
       (CalendarHomeSet_Href \<lparr>CalendarHomeSet_Href = ''/calendars/amy%40example.org/''\<rparr>) =
       Inr ''/calendars/amy@example.org/''
   \<and> fst (NewClient (\<lambda>u pw. scenario_http) ''cal.example.org'' ''amy@example.org''
            ''secret'' []) =
       Ok scenario_client
   \<and> probed (snd (NewClient (\<lambda>u pw. scenario_http) ''cal.example.org'' ''amy@example.org''
                    ''secret'' [])) =
       ['''', ''/caldav'', ''/caldav/st'']"
proof -
  let ?h = "[PROPFIND ''https://cal.example.org'' '''' Depth0
               findCurrentUserPrincipalRequestBody,
             PROPFIND ''https://cal.example.org'' ''/caldav'' Depth0
               findCurrentUserPrincipalRequestBody,
             PROPFIND ''https://cal.example.org'' ''/caldav/st'' Depth0
               findCurrentUserPrincipalRequestBody,
             PROPFIND ''https://cal.example.org'' ''/principals/amy/'' Depth0
               findCalendarHomeSetRequestBody]
            :: (Time \<times> Time) request list"
  have k: "(2::nat) < length paths"
    by (simp add: paths_def)
  have att: "attempts ''cal.example.org'' scenario_http paths [] =
      [(Err (ExternalError ''404 ''), take 1 ?h),
       (Err (ExternalError ''404 /caldav''), take 2 ?h),
       (Ok (Some \<lparr>CalendarHomeSet_Href = ''/calendars/amy%40example.org/''\<rparr>), ?h),
       (Err (ExternalError ''404 /.well-known/caldav''),
          ?h @ [PROPFIND ''https://cal.example.org'' ''/.well-known/caldav'' Depth0
                  findCurrentUserPrincipalRequestBody])]"
    by (simp add: paths_def scenario_http_def static_http_def scenario_propfind_def
          findCalendarHomeSet_def Propfind_def caldav_NewClient_def Let_def firstProp_def
          at0_def single_def emptyProp_def)
  have before: "map fst (take 2 (attempts ''cal.example.org''
                        ((\<lambda>u pw. scenario_http) ''amy@example.org'' ''secret'') paths [])) =
       map Err [ExternalError ''404 '', ExternalError ''404 /caldav'']"
    by (simp add: att)
  have at: "attempts ''cal.example.org''
              ((\<lambda>u pw. scenario_http) ''amy@example.org'' ''secret'') paths [] ! 2 =
      (Ok (Some \<lparr>CalendarHomeSet_Href = ''/calendars/amy%40example.org/''\<rparr>), ?h)"
    by (simp add: att)
  have un: "QueryUnescape
       (CalendarHomeSet_Href \<lparr>CalendarHomeSet_Href = ''/calendars/amy%40example.org/''\<rparr>) =
       Inr ''/calendars/amy@example.org/''"
    by code_simp
  from first_success_wins [OF k before at un] k before un show ?thesis
    by (simp add: scenario_client_def paths_def)
qed

text \<open>
  An \<open>href\<close> that cannot be unescaped is returned as an error, by discovery and by
  \<open>NewClient\<close> alike.
\<close>

lemma findCalendarHomeSet_bad_href:
  assumes "propfind_answer (http c) h
             (PROPFIND (server c) p Depth0 findCurrentUserPrincipalRequestBody) = Inr m"
    and "firstProp m = Inr prop"
    and "CurrentUserPrincipal prop = Some cup"
    and "QueryUnescape (CurrentUserPrincipal_Href cup) = Inl e"
  shows "fst (findCalendarHomeSet c p h) = Err e"
  using assms by (simp add: findCalendarHomeSet_def Propfind_def Let_def)

lemma NewClient_bad_href:
  assumes "discoverServer host (basicAuth username password) h = (Ok (cc, Some homeSet), h')"
    and "QueryUnescape (CalendarHomeSet_Href homeSet) = Inl e"
  shows "fst (NewClient basicAuth host username password h) = Err e"
  using assms by (simp add: NewClient_def Let_def)

text \<open>
  C2 asks that a property query which succeeds at the transport level, but whose
  response lacks the current user principal or the calendar home set, makes discovery
  return an error instead of crashing. The code does not: when the response has no
  property status, \<open>NewClient\<close> panics with an index out of range; when the property
  status lacks the current user principal, it panics with a nil dereference; when the
  second response lacks the calendar home set, \<open>discoverServer\<close> reports success with a
  nil home set and \<open>NewClient\<close> panics when it reads the reference.
\<close>

theorem missing_property_panics:
  "fst (NewClient (\<lambda>u pw. http_without_propstat) ''cal.example.org'' ''amy@example.org''
          ''secret'' []) = Panic IndexOutOfRange
   \<and> fst (NewClient (\<lambda>u pw. http_without_principal) ''cal.example.org'' ''amy@example.org''
          ''secret'' []) = Panic NilPointerDereference
   \<and> (case fst (discoverServer ''cal.example.org'' http_without_homeset []) of
        Ok (cc, homeSet) \<Rightarrow> homeSet = None
      | _ \<Rightarrow> False)
   \<and> fst (NewClient (\<lambda>u pw. http_without_homeset) ''cal.example.org'' ''amy@example.org''
          ''secret'' []) = Panic NilPointerDereference"
  by (simp add: NewClient_def discoverServer_def paths_def findCalendarHomeSet_def Propfind_def
        caldav_NewClient_def Let_def firstProp_def at0_def single_def emptyProp_def
        http_without_propstat_def http_without_principal_def http_without_homeset_def
        static_http_def)

section \<open>Properties of the enumeration\<close>

lemma findCalendars_components_eq:
  "findCalendars_components cl r prop cs =
     (if calendarType \<in> set (map Component_Name cs) then
        (case QueryUnescape (Response_Href r) of
           Inl err \<Rightarrow> Inl err
         | Inr p \<Rightarrow>
             Inr (Some \<lparr>entry_path = p,
                        entry_emailAddress = client_emailAddress cl,
                        displayName = DisplayName prop,
                        timeZone = extractTimeZoneID (CalendarTimezone prop)\<rparr>))
      else Inr None)"
  by (induction cs) auto

lemma findCalendars_loop_filter:
  assumes "\<forall>r\<in>set rs. PropStats r \<noteq> []"
    and "map (\<lambda>r. QueryUnescape (Response_Href r)) (filter supportsEvents rs) = map Inr ps"
  shows "findCalendars_loop cl rs acc =
           Ok (acc @ map2 (expectedEntry cl) (filter supportsEvents rs) ps)"
  using assms
proof (induction rs arbitrary: acc ps)
  case Nil
  then show ?case by simp
next
  case (Cons r rs)
  from Cons.prems(1) obtain propstat more where pr: "PropStats r = propstat # more"
    by (cases "PropStats r") auto
  from Cons.prems(1) have ne: "\<forall>r\<in>set rs. PropStats r \<noteq> []"
    by simp
  show ?case
  proof (cases "supportsEvents r")
    case True
    with pr obtain cs where ok: "Status propstat = httpOK"
      and cs: "SupportedCalendarComponentSet (PropStat_Prop propstat) = Some cs"
      and ev: "calendarType \<in> set (map Component_Name (Components cs))"
      by (auto simp: supportsEvents_def split: option.splits)
    from True Cons.prems(2) obtain p ps' where ps: "ps = p # ps'"
      and un: "QueryUnescape (Response_Href r) = Inr p"
      and rest: "map (\<lambda>r. QueryUnescape (Response_Href r)) (filter supportsEvents rs) =
                   map Inr ps'"
      by (cases ps) auto
    have "findCalendars_loop cl (r # rs) acc =
            findCalendars_loop cl rs (acc @ [expectedEntry cl r p])"
      using pr ok cs ev un
      by (simp add: at0_def findCalendars_components_eq expectedEntry_def Let_def)
    with Cons.IH [OF ne rest] True ps show ?thesis
      by simp
  next
    case False
    with pr have "findCalendars_loop cl (r # rs) acc = findCalendars_loop cl rs acc"
      by (auto simp: at0_def findCalendars_components_eq supportsEvents_def
            split: option.splits bool.splits)
    with Cons.IH [OF ne] Cons.prems(2) False show ?thesis
      by simp
  qed
qed

text \<open>
  C6, as the code has it: for every enumeration response set in which every entry
  carries a property status and the reference of every qualifying entry can be
  unescaped, \<open>findCalendars\<close> returns exactly the entries whose first property status is
  \<open>HTTP/1.1 200 OK\<close> and whose supported-component-set is present and includes \<open>VEVENT\<close>,
  in response order, each under its unescaped path; the other entries, those supporting
  only to-dos or journals among them, are left out and produce no error.
\<close>

theorem findCalendars_filter:
  assumes "propfind_answer (http (calendarClient cl)) h
             (PROPFIND (server (calendarClient cl)) (client_path cl) Depth1
                findCalendarsRequestBody) = Inr m"
    and "\<forall>r\<in>set (Responses m). PropStats r \<noteq> []"
    and "map (\<lambda>r. QueryUnescape (Response_Href r)) (filter supportsEvents (Responses m))
           = map Inr ps"
  shows "fst (findCalendars cl h) =
           Ok (map2 (expectedEntry cl) (filter supportsEvents (Responses m)) ps)"
  using assms(1) findCalendars_loop_filter [OF assms(2) assms(3), of cl "[]"]
  by (simp add: findCalendars_def Propfind_def Let_def)

theorem findCalendars_filter_witness:
  "propfind_answer (http (calendarClient scenario_client)) []
     (PROPFIND (server (calendarClient scenario_client)) (client_path scenario_client) Depth1
        findCalendarsRequestBody) = Inr scenario_calendars
   \<and> list_all (\<lambda>r. PropStats r \<noteq> []) (Responses scenario_calendars)
   \<and> map (\<lambda>r. QueryUnescape (Response_Href r))
        (filter supportsEvents (Responses scenario_calendars)) =
       map Inr [''/calendars/amy@example.org/work/'', ''/calendars/amy@example.org/home/'']
   \<and> fst (findCalendars scenario_client []) = Ok [sample_calendar, home_calendar]"
proof -
  have a: "propfind_answer (http (calendarClient scenario_client)) []
     (PROPFIND (server (calendarClient scenario_client)) (client_path scenario_client) Depth1
        findCalendarsRequestBody) = Inr scenario_calendars"
    by (simp add: scenario_client_def caldav_NewClient_def scenario_http_def static_http_def
          scenario_propfind_def)
  have b: "\<forall>r\<in>set (Responses scenario_calendars). PropStats r \<noteq> []"
    by (simp add: scenario_calendars_def single_def)
  have f: "filter supportsEvents (Responses scenario_calendars) =
      [Responses scenario_calendars ! 1, Responses scenario_calendars ! 4]"
    by (simp add: scenario_calendars_def single_def supportsEvents_def emptyProp_def
          httpOK_def calendarType_def)
  have c: "map (\<lambda>r. QueryUnescape (Response_Href r))
        (filter supportsEvents (Responses scenario_calendars)) =
       map Inr [''/calendars/amy@example.org/work/'', ''/calendars/amy@example.org/home/'']"
    unfolding f by (simp add: scenario_calendars_def single_def) code_simp
  from findCalendars_filter [OF a b c] a b c show ?thesis
    by (simp add: f list_all_iff)
       (simp add: scenario_calendars_def single_def expectedEntry_def emptyProp_def
          scenario_client_def extractTimeZoneID_def sample_calendar_def home_calendar_def)
qed

text \<open>
  C6 as stated, for every response set, fails: the only entry of this calendar home has
  status success and supports events, but its reference \<open>/calendars/amy/100%/\<close> cannot be
  unescaped, and \<open>findCalendars\<close> returns the escape error instead of the entry.
\<close>

theorem findCalendars_bad_href_counterexample:
  "supportsEvents percent_calendar
   \<and> fst (findCalendars percent_client []) = Err (EscapeError ''%/'')"
  by (simp add: supportsEvents_def percent_calendar_def percent_client_def single_def
        emptyProp_def httpOK_def calendarType_def findCalendars_def Propfind_def Let_def
        caldav_NewClient_def static_http_def at0_def)

section \<open>Properties of the event queries\<close>

lemma appendItems_eq:
  "appendItems cv cal items events =
     items @ map (\<lambda>event. newCalendarItem cv event cal) events"
  unfolding appendItems_def
  by (induction events arbitrary: items) simp_all

lemma queries_length [simp]: "length (queries cl q cals h) = length cals"
  by (induction cals arbitrary: h) (simp_all add: Let_def)

lemma QueryEvents_history:
  "snd (QueryEvents c p q h) = h @ [REPORT (server c) p q]"
  by (simp add: QueryEvents_def Let_def)

lemma loop_all_ok:
  "map fst (queries cl q cals h) = map Inr evss \<Longrightarrow>
   \<exists>new. CalendarEvents_loop cv cl q cals items h =
           (Ok (items @ concat (map2 (\<lambda>cal evs. map (\<lambda>ev. newCalendarItem cv ev cal) evs)
                                 cals evss)), h @ new)
        \<and> reported new = map entry_path cals"
proof (induction cals arbitrary: h items evss)
  case Nil
  then show ?case by simp
next
  case (Cons cal cals)
  obtain r h1 where r: "QueryEvents (calendarClient cl) (entry_path cal) q h = (r, h1)"
    by (cases "QueryEvents (calendarClient cl) (entry_path cal) q h")
  with QueryEvents_history [of "calendarClient cl" "entry_path cal" q h]
  have h1: "h1 = h @ [REPORT (server (calendarClient cl)) (entry_path cal) q]"
    by simp
  from Cons.prems r obtain evs evss' where ev: "evss = evs # evss'" and re: "r = Inr evs"
    and rest: "map fst (queries cl q cals h1) = map Inr evss'"
    by (cases evss) (auto simp: Let_def)
  from Cons.IH [OF rest, of "appendItems cv cal items evs"] obtain n2 where
    l: "CalendarEvents_loop cv cl q cals (appendItems cv cal items evs) h1 =
          (Ok (appendItems cv cal items evs @
               concat (map2 (\<lambda>cal evs. map (\<lambda>ev. newCalendarItem cv ev cal) evs)
                         cals evss')),
           h1 @ n2)"
    and p2: "reported n2 = map entry_path cals"
    by blast
  have "CalendarEvents_loop cv cl q (cal # cals) items h =
      (Ok (items @ concat (map2 (\<lambda>cal evs. map (\<lambda>ev. newCalendarItem cv ev cal) evs)
                             (cal # cals) evss)),
       h @ ([REPORT (server (calendarClient cl)) (entry_path cal) q] @ n2))"
    using r re l ev h1 by (simp add: appendItems_eq)
  moreover have "reported ([REPORT (server (calendarClient cl)) (entry_path cal) q] @ n2) =
      map entry_path (cal # cals)"
    using p2 by simp
  ultimately show ?case by blast
qed

lemma loop_first_failure:
  "j < length cals \<Longrightarrow> map fst (take j (queries cl q cals h)) = map Inr evss \<Longrightarrow>
   queries cl q cals h ! j = (Inl err, h') \<Longrightarrow>
   CalendarEvents_loop cv cl q cals items h = (Err err, h')
   \<and> (\<exists>new. h' = h @ new \<and> reported new = map entry_path (take (Suc j) cals))"
proof (induction cals arbitrary: j h items evss)
  case Nil
  then show ?case by simp
next
  case (Cons cal cals)
  obtain r h1 where r: "QueryEvents (calendarClient cl) (entry_path cal) q h = (r, h1)"
    by (cases "QueryEvents (calendarClient cl) (entry_path cal) q h")
  with QueryEvents_history [of "calendarClient cl" "entry_path cal" q h]
  have h1: "h1 = h @ [REPORT (server (calendarClient cl)) (entry_path cal) q]"
    by simp
  show ?case
  proof (cases j)
    case 0
    with Cons.prems r have "r = Inl err" "h1 = h'"
      by (simp_all add: Let_def)
    with r h1 0 show ?thesis
      by simp
  next
    case (Suc i)
    from Cons.prems r Suc obtain evs evss' where ev: "evss = evs # evss'"
      and re: "r = Inr evs"
      and rest: "map fst (take i (queries cl q cals h1)) = map Inr evss'"
      by (cases evss) (auto simp: Let_def)
    from Cons.prems Suc r have i: "i < length cals"
      and at: "queries cl q cals h1 ! i = (Inl err, h')"
      by (simp_all add: Let_def)
    from Cons.IH [OF i rest at, of "appendItems cv cal items evs"] obtain n2 where
      l: "CalendarEvents_loop cv cl q cals (appendItems cv cal items evs) h1 = (Err err, h')"
      and h': "h' = h1 @ n2" and p2: "reported n2 = map entry_path (take (Suc i) cals)"
      by blast
    have "CalendarEvents_loop cv cl q (cal # cals) items h = (Err err, h')"
      using r re l by simp
    moreover have "h' = h @ ([REPORT (server (calendarClient cl)) (entry_path cal) q] @ n2)"
      "reported ([REPORT (server (calendarClient cl)) (entry_path cal) q] @ n2) =
         map entry_path (take (Suc j) (cal # cals))"
      using h' h1 p2 Suc by simp_all
    ultimately show ?thesis by blast
  qed
qed

lemma QueryUnescape_work:
  "QueryUnescape ''/calendars/amy%40example.org/work/'' =
     Inr ''/calendars/amy@example.org/work/''"
  by code_simp

lemma QueryUnescape_home:
  "QueryUnescape ''/calendars/amy%40example.org/home/'' =
     Inr ''/calendars/amy@example.org/home/''"
  by code_simp

lemma findCalendars_static:
  "findCalendars
     \<lparr>client_path = ''/calendars/amy@example.org/'', client_emailAddress = ''amy@example.org'',
      calendarClient =
        caldav_NewClient ''https://cal.example.org'' (static_http scenario_propfind g),
      httpClient = static_http scenario_propfind g\<rparr> [] =
   (Ok [sample_calendar, home_calendar],
    [PROPFIND ''https://cal.example.org'' ''/calendars/amy@example.org/'' Depth1
       findCalendarsRequestBody])"
  by (simp add: findCalendars_def Propfind_def Let_def caldav_NewClient_def static_http_def
        scenario_propfind_def scenario_calendars_def single_def emptyProp_def at0_def
        httpOK_def calendarType_def QueryUnescape_work QueryUnescape_home
        extractTimeZoneID_def sample_calendar_def home_calendar_def
      del: QueryUnescape.simps)

text \<open>
  C8: for every list of enumerated calendars, when the event queries of the calendars
  before position \<open>j\<close> succeed and the query of calendar \<open>j\<close> fails, \<open>CalendarEvents\<close>
  returns the error of that calendar and no events, and it stops there: the calendars
  queried are those up to and including \<open>j\<close>.
\<close>

theorem CalendarEvents_fail_fast:
  assumes "NewEventRangeQuery startUTC endUTC = Inr q"
    and "findCalendars cl h = (Ok cals, h1)"
    and "j < length cals"
    and "map fst (take j (queries cl q cals h1)) = map Inr evss"
    and "queries cl q cals h1 ! j = (Inl err, h2)"
  shows "CalendarEvents NewEventRangeQuery cv cl startUTC endUTC h = (Err err, h2)
       \<and> reported (drop (length h1) h2) = map entry_path (take (Suc j) cals)"
proof -
  from loop_first_failure [OF assms(3) assms(4) assms(5), of cv "[]"] obtain new where
    "CalendarEvents_loop cv cl q cals [] h1 = (Err err, h2)"
    "h2 = h1 @ new" "reported new = map entry_path (take (Suc j) cals)"
    by blast
  with assms(1) assms(2) show ?thesis
    by (simp add: CalendarEvents_def)
qed

theorem CalendarEvents_fail_fast_witness:
  "(0::nat) < length [sample_calendar, home_calendar]
   \<and> findCalendars flaky_client [] =
       (Ok [sample_calendar, home_calendar],
        [PROPFIND ''https://cal.example.org'' ''/calendars/amy@example.org/'' Depth1
           findCalendarsRequestBody])
   \<and> CalendarEvents (\<lambda>s e. Inr (s, e)) sample_convert flaky_client 0 86400000000000 [] =
       (Err (ExternalError ''503 /calendars/amy@example.org/work/''),
        [PROPFIND ''https://cal.example.org'' ''/calendars/amy@example.org/'' Depth1
           findCalendarsRequestBody,
         REPORT ''https://cal.example.org'' ''/calendars/amy@example.org/work/''
           (0, 86400000000000)])"
proof -
  let ?h1 = "[PROPFIND ''https://cal.example.org'' ''/calendars/amy@example.org/'' Depth1
                findCalendarsRequestBody] :: (Time \<times> Time) request list"
  let ?q = "(0, 86400000000000) :: Time \<times> Time"
  have q: "(\<lambda>s e. Inr (s, e)) (0::Time) (86400000000000::Time) =
      (Inr ?q :: error + Time \<times> Time)"
    by simp
  have cals: "findCalendars flaky_client [] = (Ok [sample_calendar, home_calendar], ?h1)"
    unfolding flaky_client_def flaky_http_def by (rule findCalendars_static)
  have j: "(0::nat) < length [sample_calendar, home_calendar]"
    by simp
  have before:
    "map fst (take 0 (queries flaky_client ?q [sample_calendar, home_calendar] ?h1)) =
       map Inr []"
    by simp
  have fail: "queries flaky_client ?q [sample_calendar, home_calendar] ?h1 ! 0 =
      (Inl (ExternalError ''503 /calendars/amy@example.org/work/''),
       ?h1 @ [REPORT ''https://cal.example.org'' ''/calendars/amy@example.org/work/'' ?q])"
    by (simp add: QueryEvents_def Let_def flaky_client_def flaky_http_def static_http_def
          caldav_NewClient_def sample_calendar_def)
  from CalendarEvents_fail_fast
         [where NewEventRangeQuery = "\<lambda>s e. Inr (s, e)" and startUTC = 0
            and endUTC = 86400000000000 and cv = sample_convert,
          OF q cals j before fail] j cals
  show ?thesis by simp
qed

text \<open>
  C9: when every per-calendar event query succeeds, \<open>CalendarEvents\<close> returns the mapped
  events of all calendars concatenated in calendar order, those of one calendar in the
  order of its response, each mapped with its own calendar; nothing is sorted or merged.
  Every calendar is queried once, in calendar order.
\<close>

theorem CalendarEvents_concat:
  assumes "NewEventRangeQuery startUTC endUTC = Inr q"
    and "findCalendars cl h = (Ok cals, h1)"
    and "map fst (queries cl q cals h1) = map Inr evss"
  shows "fst (CalendarEvents NewEventRangeQuery cv cl startUTC endUTC h) =
           Ok (concat (map2 (\<lambda>cal evs. map (\<lambda>ev. newCalendarItem cv ev cal) evs) cals evss))
       \<and> reported (drop (length h1)
            (snd (CalendarEvents NewEventRangeQuery cv cl startUTC endUTC h))) =
           map entry_path cals"
proof -
  from loop_all_ok [OF assms(3), of cv "[]"] obtain new where
    "CalendarEvents_loop cv cl q cals [] h1 =
       (Ok (concat (map2 (\<lambda>cal evs. map (\<lambda>ev. newCalendarItem cv ev cal) evs) cals evss)),
        h1 @ new)"
    "reported new = map entry_path cals"
    by auto
  with assms(1) assms(2) show ?thesis
    by (simp add: CalendarEvents_def)
qed

theorem CalendarEvents_concat_witness:
  "findCalendars scenario_client [] =
       (Ok [sample_calendar, home_calendar],
        [PROPFIND ''https://cal.example.org'' ''/calendars/amy@example.org/'' Depth1
           findCalendarsRequestBody])
   \<and> map fst (queries scenario_client (0, 86400000000000) [sample_calendar, home_calendar]
        [PROPFIND ''https://cal.example.org'' ''/calendars/amy@example.org/'' Depth1
           findCalendarsRequestBody]) =
       map Inr [[sample_event\<lparr>Event_UID := ''uid-2'',
                              DateStart := \<lparr>NativeTime = 7000000000\<rparr>\<rparr>, sample_event],
                [sample_event\<lparr>Event_UID := ''uid-0'', DateStart := \<lparr>NativeTime = 0\<rparr>\<rparr>]]
   \<and> fst (CalendarEvents (\<lambda>s e. Inr (s, e)) sample_convert scenario_client 0
            86400000000000 []) =
       Ok [newCalendarItem sample_convert
             (sample_event\<lparr>Event_UID := ''uid-2'',
                           DateStart := \<lparr>NativeTime = 7000000000\<rparr>\<rparr>)
             sample_calendar,
           newCalendarItem sample_convert sample_event sample_calendar,
           newCalendarItem sample_convert
             (sample_event\<lparr>Event_UID := ''uid-0'', DateStart := \<lparr>NativeTime = 0\<rparr>\<rparr>)
             home_calendar]"
proof -
  let ?h1 = "[PROPFIND ''https://cal.example.org'' ''/calendars/amy@example.org/'' Depth1
                findCalendarsRequestBody] :: (Time \<times> Time) request list"
  let ?q = "(0, 86400000000000) :: Time \<times> Time"
  have q: "(\<lambda>s e. Inr (s, e)) (0::Time) (86400000000000::Time) =
      (Inr ?q :: error + Time \<times> Time)"
    by simp
  have cals: "findCalendars scenario_client [] = (Ok [sample_calendar, home_calendar], ?h1)"
    unfolding scenario_client_def scenario_http_def by (rule findCalendars_static)
  have all: "map fst (queries scenario_client ?q [sample_calendar, home_calendar] ?h1) =
       map Inr [[sample_event\<lparr>Event_UID := ''uid-2'',
                              DateStart := \<lparr>NativeTime = 7000000000\<rparr>\<rparr>, sample_event],
                [sample_event\<lparr>Event_UID := ''uid-0'', DateStart := \<lparr>NativeTime = 0\<rparr>\<rparr>]]"
    by (simp add: QueryEvents_def Let_def scenario_client_def scenario_http_def
          static_http_def caldav_NewClient_def sample_calendar_def home_calendar_def
          scenario_report_def)
  from CalendarEvents_concat
         [where NewEventRangeQuery = "\<lambda>s e. Inr (s, e)" and startUTC = 0
            and endUTC = 86400000000000 and cv = sample_convert,
          OF q cals all] cals all
  show ?thesis by simp
qed

end
